theory Spec2Isabelle
  imports Main
begin

section \<open>Data model\<close>

text \<open>
  The chat route (\<^verbatim>\<open>app/(chat)/api/chat/route.ts\<close>) and the provider module
  (\<^verbatim>\<open>lib/ai/providers.ts\<close>) are embedded as pure functions over an explicit
  environment. Everything the handlers call outside these two files (the provider SDKs,
  the database queries, authentication, the resumable-stream store, the clock) is a field
  of the environment; a call that can throw returns a sum, \<open>Inl\<close> carrying the thrown
  value.
\<close>

text \<open>
  A thrown JavaScript value, as far as the code inspects it: \<^verbatim>\<open>error.message\<close> and
  \<^verbatim>\<open>error.code\<close>, either of which may be undefined.
\<close>

datatype exn = Error (exn_message: "string option") (exn_code: "string option")

definition TypeError :: exn where
  "TypeError = Error (Some ''TypeError'') None"

text \<open>
  The JavaScript values that are no language model and that the registry can still hand
  back as one (see \<open>providerSDKs\<close> below): undefined, a boolean, a string, the object
  wrapping a string, the registry's table itself, and the getter and the setter of
  \<^verbatim>\<open>Object.prototype.__proto__\<close>.
\<close>

datatype js_value =
    JsUndefined
  | JsBoolean bool
  | JsString string
  | JsStringObject string
  | JsProviderSDKs
  | JsProtoGetter
  | JsProtoSetter

text \<open>
  A language-model handle (\<^verbatim>\<open>LanguageModelV1\<close>). The SDK constructors are parameters,
  so a handle is only a tag: the provider that built it and the provider-native model id,
  or a handle wrapped by \<^verbatim>\<open>wrapLanguageModel\<close>. \<open>NotAModel\<close> is a value the type
  checker takes for a handle and that is none.
\<close>

datatype handle =
    LanguageModel string string
  | WrapLanguageModel handle
  | NotAModel js_value

type_synonym sdk = "string \<Rightarrow> exn + handle"

record attachment =
  url :: string
  att_name :: string
  contentType :: string

text \<open>The inbound message of the validated request body.\<close>

record ui_message =
  msg_id :: string
  msg_createdAt :: int
  msg_role :: string
  content :: string
  parts :: "string list"
  experimental_attachments :: "attachment list option"

text \<open>Rows of the \<^verbatim>\<open>provider\<close> and \<^verbatim>\<open>providerModel\<close> tables.\<close>

record provider_row =
  prov_id :: string
  prov_name :: string
  slug :: string
  prov_enabled :: bool

record provider_model_row =
  pm_id :: string
  pm_providerId :: string
  pm_name :: string
  pm_modelId :: string
  isChat :: bool
  isImage :: bool
  pm_enabled :: bool

text \<open>
  The collaborators of model resolution.
  \<^item> \<open>openai\<close>, \<open>xai\<close>: the SDK entry points imported by \<^verbatim>\<open>providers.ts\<close>.
  \<^item> \<open>require_anthropic\<close>: what \<^verbatim>\<open>require('@ai-sdk/anthropic').anthropic\<close> gives in
    \<^verbatim>\<open>providers.ts\<close>: a throw, or the module's export (possibly undefined).
  \<^item> \<open>anthropic_import\<close>: the binding \<^verbatim>\<open>import { anthropic } from '@ai-sdk/anthropic'\<close>
    of \<^verbatim>\<open>route.ts\<close>, tested for truthiness there.
  \<^item> \<open>languageModels\<close>: the property \<^verbatim>\<open>myProvider.languageModels\<close>, which the code
    reads past the type checker: the truthy value indexing it yields for a key, or
    \<open>None\<close> when the provider object has no such property. The object
    \<^verbatim>\<open>customProvider\<close> returns has none; it keeps the table it was given to itself.
  \<^item> \<open>languageModel\<close>: the method \<^verbatim>\<open>myProvider.languageModel\<close>, which answers from
    that table and throws for an identifier the table lacks.
  \<^item> \<open>select_providerModel\<close>: the query
    \<^verbatim>\<open>db.select().from(providerModel).where(eq(providerModel.id, modelId)).limit(1)\<close>.
  \<^item> \<open>getProviderById\<close>: the query of that name.
\<close>

record resolver_env =
  openai :: sdk
  xai :: sdk
  require_anthropic :: "exn + sdk option"
  anthropic_import :: "sdk option"
  languageModels :: "(string \<rightharpoonup> handle) option"
  languageModel :: sdk
  select_providerModel :: "string \<Rightarrow> exn + provider_model_row list"
  getProviderById :: "string \<Rightarrow> exn + provider_row option"

section \<open>Provider Registry (providers.ts)\<close>

text \<open>
  \<^verbatim>\<open>String.prototype.includes\<close>: the second string occurs in the first as a
  contiguous run. Strings are compared character by character; the identifiers the
  handlers test are ASCII, where a character is one UTF-16 unit.
\<close>

fun str_includes :: "string \<Rightarrow> string \<Rightarrow> bool" where
  "str_includes [] t = (t = [])"
| "str_includes (c # s) t = (take (length t) (c # s) = t \<or> str_includes s t)"

text \<open>
  \<^verbatim>\<open>let anthropic\<close> of \<^verbatim>\<open>providers.ts\<close>: the module's export, or, when the
  \<^verbatim>\<open>require\<close> throws, a mock that returns \<^verbatim>\<open>openai('gpt-4o')\<close>.
\<close>

definition anthropic :: "('a resolver_env_scheme) \<Rightarrow> sdk option" where
  "anthropic env =
     (case require_anthropic env of
        Inr a \<Rightarrow> a
      | Inl e \<Rightarrow> Some (\<lambda>modelId. openai env ''gpt-4o''))"

text \<open>
  \<^verbatim>\<open>providerSDKs\<close> is a plain object with the own keys \<^verbatim>\<open>openai\<close>, \<^verbatim>\<open>xai\<close> and
  \<^verbatim>\<open>anthropic\<close>, indexed by the slug: a slug that is no own key is looked up in
  \<^verbatim>\<open>Object.prototype\<close>, and \<^verbatim>\<open>getProviderModel\<close> calls what it finds there on the
  table, with the model id. \<open>objectPrototype\<close> gives, for each property of
  \<^verbatim>\<open>Object.prototype\<close>, the outcome of that call:
  \<^item> \<^verbatim>\<open>constructor\<close> wraps the model id in a String object;
  \<^item> \<^verbatim>\<open>hasOwnProperty\<close> and \<^verbatim>\<open>propertyIsEnumerable\<close> answer whether the model id is
    one of the three own keys; \<^verbatim>\<open>isPrototypeOf\<close> answers false;
  \<^item> \<^verbatim>\<open>toString\<close> and \<^verbatim>\<open>toLocaleString\<close> give \<^verbatim>\<open>[object Object]\<close>;
    \<^verbatim>\<open>valueOf\<close> gives the table;
  \<^item> \<^verbatim>\<open>__lookupGetter__\<close> and \<^verbatim>\<open>__lookupSetter__\<close> give the accessor of
    \<^verbatim>\<open>__proto__\<close> for that name and undefined for any other;
  \<^item> \<^verbatim>\<open>__defineGetter__\<close> and \<^verbatim>\<open>__defineSetter__\<close> throw a TypeError (no function is
    passed), and so does calling \<^verbatim>\<open>__proto__\<close>, which is an object and no function.
\<close>

definition objectPrototype :: "string \<Rightarrow> sdk option" where
  "objectPrototype key =
     (if key = ''constructor''
      then Some (\<lambda>modelId. Inr (NotAModel (JsStringObject modelId)))
      else if key = ''hasOwnProperty'' \<or> key = ''propertyIsEnumerable''
      then Some (\<lambda>modelId. Inr (NotAModel (JsBoolean
             (modelId = ''openai'' \<or> modelId = ''xai'' \<or> modelId = ''anthropic''))))
      else if key = ''isPrototypeOf''
      then Some (\<lambda>modelId. Inr (NotAModel (JsBoolean False)))
      else if key = ''toString'' \<or> key = ''toLocaleString''
      then Some (\<lambda>modelId. Inr (NotAModel (JsString ''[object Object]'')))
      else if key = ''valueOf''
      then Some (\<lambda>modelId. Inr (NotAModel JsProviderSDKs))
      else if key = ''__lookupGetter__''
      then Some (\<lambda>modelId. Inr (NotAModel
             (if modelId = ''__proto__'' then JsProtoGetter else JsUndefined)))
      else if key = ''__lookupSetter__''
      then Some (\<lambda>modelId. Inr (NotAModel
             (if modelId = ''__proto__'' then JsProtoSetter else JsUndefined)))
      else if key = ''__defineGetter__'' \<or> key = ''__defineSetter__'' \<or> key = ''__proto__''
      then Some (\<lambda>modelId. Inl TypeError)
      else None)"

definition providerSDKs :: "('a resolver_env_scheme) \<Rightarrow> string \<Rightarrow> sdk option" where
  "providerSDKs env providerSlug =
     (if providerSlug = ''openai'' then Some (openai env)
      else if providerSlug = ''xai'' then Some (xai env)
      else if providerSlug = ''anthropic'' then anthropic env
      else objectPrototype providerSlug)"

definition getProviderModel :: "('a resolver_env_scheme) \<Rightarrow> string \<Rightarrow> string \<Rightarrow> exn + handle" where
  "getProviderModel env providerSlug modelId =
     (case providerSDKs env providerSlug of
        Some f \<Rightarrow>
          (case f modelId of
             Inr h \<Rightarrow> Inr h
           | Inl e \<Rightarrow> openai env ''gpt-4o'')
      | None \<Rightarrow> openai env ''gpt-4o'')"

text \<open>
  \<^verbatim>\<open>getDynamicLanguageModel\<close>. The first \<^verbatim>\<open>try\<close> reads the predefined table; the
  second branch is taken by an id that contains \<^verbatim>\<open>-\<close> and is longer than 30; the last
  asks \<^verbatim>\<open>myProvider.languageModel('openai-gpt4o')\<close>. Each \<^verbatim>\<open>catch\<close> returns
  \<^verbatim>\<open>openai('gpt-4o')\<close>, whose own throw leaves the function.
\<close>

definition getDynamicLanguageModel :: "('a resolver_env_scheme) \<Rightarrow> string \<Rightarrow> exn + handle" where
  "getDynamicLanguageModel env modelId =
     (case (case languageModels env of None \<Rightarrow> None | Some t \<Rightarrow> t modelId) of
        Some h \<Rightarrow> Inr h
      | None \<Rightarrow>
          if str_includes modelId ''-'' \<and> length modelId > 30 then
            (case openai env ''gpt-4o'' of
               Inr h \<Rightarrow> Inr h
             | Inl e \<Rightarrow> openai env ''gpt-4o'')
          else
            (case languageModel env ''openai-gpt4o'' of
               Inr h \<Rightarrow> Inr h
             | Inl e \<Rightarrow> openai env ''gpt-4o''))"

section \<open>Model Resolver (route.ts, getModelForChat)\<close>

definition hasPDFAttachment :: "('a ui_message_scheme) \<Rightarrow> bool" where
  "hasPDFAttachment message =
     (case experimental_attachments message of
        None \<Rightarrow> False
      | Some as \<Rightarrow> list_ex (\<lambda>a. contentType a = ''application/pdf'') as)"

text \<open>
  The expression returned inside the first \<^verbatim>\<open>try\<close>:
  \<^verbatim>\<open>anthropic ? anthropic('claude-3.5-sonnet-20241022') : openai('gpt-4o')\<close>.
\<close>

definition pdfCapableModel :: "('a resolver_env_scheme) \<Rightarrow> exn + handle" where
  "pdfCapableModel env =
     (case anthropic_import env of
        Some a \<Rightarrow> a ''claude-3.5-sonnet-20241022''
      | None \<Rightarrow> openai env ''gpt-4o'')"

text \<open>
  The body of the database \<^verbatim>\<open>try\<close> block: \<open>Some h\<close> when it returns \<open>h\<close>,
  \<open>None\<close> when control leaves the block without returning (no row, no provider, an
  empty slug, or anything thrown inside, which the \<^verbatim>\<open>catch\<close> only logs).
\<close>

definition databaseModel :: "('a resolver_env_scheme) \<Rightarrow> string \<Rightarrow> handle option" where
  "databaseModel env modelId =
     (case select_providerModel env modelId of
        Inl e \<Rightarrow> None
      | Inr dbModel \<Rightarrow>
          (case dbModel of
             [] \<Rightarrow> None
           | model # rest \<Rightarrow>
               (case getProviderById env (pm_providerId model) of
                  Inl e \<Rightarrow> None
                | Inr None \<Rightarrow> None
                | Inr (Some provider) \<Rightarrow>
                    if slug provider \<noteq> [] then
                      (case getProviderModel env (slug provider) (pm_modelId model) of
                         Inr h \<Rightarrow> Some h
                       | Inl e \<Rightarrow> None)
                    else None)))"

definition getModelForChat :: "('a resolver_env_scheme) \<Rightarrow> string \<Rightarrow> ('b ui_message_scheme) \<Rightarrow> exn + handle" where
  "getModelForChat env modelId message =
     (case (if hasPDFAttachment message
            then (case pdfCapableModel env of Inr h \<Rightarrow> Some h | Inl e \<Rightarrow> None)
            else None) of
        Some h \<Rightarrow> Inr h
      | None \<Rightarrow>
          (case getDynamicLanguageModel env modelId of
             Inr h \<Rightarrow> Inr h
           | Inl e \<Rightarrow>
               (case (if str_includes modelId ''-'' \<and> length modelId > 30
                      then databaseModel env modelId else None) of
                  Some h \<Rightarrow> Inr h
                | None \<Rightarrow> openai env ''gpt-4o'')))"

section \<open>The chat route: data\<close>

datatype visibility_type = Public | Private

record chat =
  chat_id :: string
  chat_createdAt :: int
  title :: string
  userId :: string
  visibility :: visibility_type

text \<open>A persisted message; timestamps are milliseconds since the epoch.\<close>

record db_message =
  dbm_id :: string
  chatId :: string
  role :: string
  dbm_parts :: "string list"
  attachments :: "attachment list"
  createdAt :: int

datatype user_type = Guest | Regular

record user =
  user_id :: string
  user_type :: user_type

record session =
  session_user :: "user option"

record request_hints =
  longitude :: "string option"
  latitude :: "string option"
  city :: "string option"
  country :: "string option"

text \<open>
  The request body after \<^verbatim>\<open>postRequestBodySchema.parse\<close>, and a POST request as the
  handler reads it: \<open>parsed_body\<close> is \<open>None\<close> when \<^verbatim>\<open>request.json()\<close> or the
  schema's \<^verbatim>\<open>parse\<close> throws.
\<close>

record post_request_body =
  body_id :: string
  body_message :: ui_message
  selectedChatModel :: string
  selectedVisibilityType :: visibility_type

record post_request =
  parsed_body :: "post_request_body option"
  geolocation :: request_hints

text \<open>
  A GET request: \<^verbatim>\<open>searchParams.get('chatId')\<close>; a DELETE request:
  \<^verbatim>\<open>searchParams.get('id')\<close>. \<open>None\<close> is JavaScript's null.
\<close>

record get_request =
  get_chatId :: "string option"

record delete_request =
  delete_id :: "string option"

text \<open>The options the handler passes to \<^verbatim>\<open>streamText\<close>.\<close>

record stream_text_call =
  call_model :: handle
  system :: string
  call_messages :: "ui_message list"
  maxSteps :: nat
  experimental_activeTools :: "string list"
  tools :: "string list"

text \<open>
  A data stream, as the sequence of what its \<^verbatim>\<open>execute\<close> callback writes:
  \<^verbatim>\<open>buffer.writeData({type, message: JSON.stringify(m)})\<close>, or the output of a
  \<^verbatim>\<open>streamText\<close> call merged into it. \<^verbatim>\<open>execute: () => {}\<close> is the empty list.
\<close>

datatype data_part = WriteData string db_message | MergeIntoDataStream stream_text_call

type_synonym data_stream = "data_part list"

datatype body = Text string | NoBody | Json string | Stream data_stream

record response =
  status :: nat
  body :: body

text \<open>
  The resumable-stream context: \<^verbatim>\<open>resumableStream(streamId, makeStream)\<close> answers with
  a stream, with null (\<open>None\<close>) when the stream under that id has concluded, or throws.
\<close>

record stream_context =
  resumableStream :: "string \<Rightarrow> data_stream \<Rightarrow> exn + data_stream option"

text \<open>
  Calls with an effect outside the handler, in the order the handler issues them. A call
  is logged when it is made, whether or not it then throws.
\<close>

datatype effect =
    GenerateTitle ui_message
  | SaveChat string string string visibility_type
  | SaveMessages "db_message list"
  | CreateStreamId string string
  | StreamText stream_text_call
  | ResumableStream string

text \<open>
  The collaborators of the route beyond model resolution: authentication, the queries of
  \<^verbatim>\<open>lib/db/queries\<close>, title generation, the SDK's \<^verbatim>\<open>appendClientMessage\<close>, the system
  prompt, \<^verbatim>\<open>generateUUID\<close>, the clock (\<^verbatim>\<open>new Date()\<close>, in milliseconds), the two
  environment variables read by \<^verbatim>\<open>getStreamContext\<close> and
  \<^verbatim>\<open>createResumableStreamContext\<close>.
\<close>

record env = resolver_env +
  auth :: "exn + session option"
  getDefaultUserPersona :: "string \<Rightarrow> exn + string option"
  getMessageCountByUserId :: "string \<Rightarrow> int \<Rightarrow> exn + int"
  getChatById :: "string \<Rightarrow> exn + chat option"
  generateTitleFromUserMessage :: "ui_message \<Rightarrow> exn + string"
  saveChat :: "string \<Rightarrow> string \<Rightarrow> string \<Rightarrow> visibility_type \<Rightarrow> exn + unit"
  getMessagesByChatId :: "string \<Rightarrow> exn + db_message list"
  saveMessages :: "db_message list \<Rightarrow> exn + unit"
  createStreamId :: "string \<Rightarrow> string \<Rightarrow> exn + unit"
  getStreamIdsByChatId :: "string \<Rightarrow> exn + string list"
  deleteChatById :: "string \<Rightarrow> exn + string"
  appendClientMessage :: "db_message list \<Rightarrow> ui_message \<Rightarrow> ui_message list"
  systemPrompt :: "string \<Rightarrow> request_hints \<Rightarrow> string option \<Rightarrow> string"
  generateUUID :: string
  now :: int
  REDIS_URL :: "string option"
  UPSTASH_REDIS_REST_URL :: "string option"
  createResumableStreamContext :: "exn + stream_context"

section \<open>Entitlements (entitlements.ts)\<close>

record entitlements =
  maxMessagesPerDay :: int
  availableChatModelIds :: "string list"

fun entitlementsByUserType :: "user_type \<Rightarrow> entitlements" where
  "entitlementsByUserType Guest =
     \<lparr>maxMessagesPerDay = 20,
      availableChatModelIds = [''openai-gpt4o'', ''xai-grok2'', ''*'']\<rparr>"
| "entitlementsByUserType Regular =
     \<lparr>maxMessagesPerDay = 100,
      availableChatModelIds =
        [''openai-gpt4o'', ''openai-o3mini'', ''openai-reasoning'',
         ''xai-grok2'', ''xai-grok2-vision'', ''xai-grok3-mini'', ''*'']\<rparr>"

section \<open>The resumable-stream context (route.ts, getStreamContext)\<close>

text \<open>
  \<^verbatim>\<open>getStreamContext\<close> reads and writes the module variable
  \<^verbatim>\<open>globalStreamContext\<close>: the function takes its value and returns the result with
  the new value. \<^verbatim>\<open>a || b\<close> on strings takes \<open>b\<close> when \<open>a\<close> is undefined or empty.
  When \<^verbatim>\<open>createResumableStreamContext\<close> throws, the handler reads
  \<^verbatim>\<open>error.message.includes\<close>, which is itself a TypeError when the thrown value has
  no message; otherwise it logs and returns the unset variable. The request handlers
  below take the variable's value and use the function's result; its new value matters
  to later requests only.
\<close>

definition getStreamContext ::
  "('a env_scheme) \<Rightarrow> stream_context option
     \<Rightarrow> (exn + stream_context option) \<times> stream_context option" where
  "getStreamContext env globalStreamContext =
     (case globalStreamContext of
        Some c \<Rightarrow> (Inr (Some c), Some c)
      | None \<Rightarrow>
          (let redisUrl =
                 (case REDIS_URL env of
                    None \<Rightarrow> UPSTASH_REDIS_REST_URL env
                  | Some u \<Rightarrow> if u = [] then UPSTASH_REDIS_REST_URL env else Some u)
           in case redisUrl of
                None \<Rightarrow> (Inr None, None)
              | Some u \<Rightarrow>
                  if u = [] \<or> str_includes u ''SSS'' then (Inr None, None)
                  else
                    (case createResumableStreamContext env of
                       Inr c \<Rightarrow> (Inr (Some c), Some c)
                     | Inl error \<Rightarrow>
                         (case exn_message error of
                            None \<Rightarrow> (Inl TypeError, None)
                          | Some m \<Rightarrow> (Inr None, None)))))"

section \<open>POST (route.ts)\<close>

text \<open>The value of \<^verbatim>\<open>experimental_activeTools\<close> for a selected model identifier.\<close>

definition activeTools :: "string \<Rightarrow> string list" where
  "activeTools selected =
     (if selected = ''chat-model-reasoning'' \<or>
         selected = ''openai-reasoning'' \<or>
         selected = ''xai-grok3-mini''
      then []
      else [''getWeather'', ''createDocument'', ''updateDocument'',
            ''requestSuggestions'', ''braveSearch''])"

text \<open>The row the handler saves for the inbound message.\<close>

definition userMessage :: "('a env_scheme) \<Rightarrow> post_request_body \<Rightarrow> db_message" where
  "userMessage env requestBody =
     \<lparr>dbm_id = msg_id (body_message requestBody),
      chatId = body_id requestBody,
      role = ''user'',
      dbm_parts = parts (body_message requestBody),
      attachments =
        (case experimental_attachments (body_message requestBody) of
           None \<Rightarrow> []
         | Some as \<Rightarrow> as),
      createdAt = now env\<rparr>"

text \<open>
  The handler from \<^verbatim>\<open>getMessagesByChatId\<close> to its last \<^verbatim>\<open>return\<close>: \<open>Inl\<close> is
  a throw inside the \<^verbatim>\<open>try\<close> block, \<open>effs\<close> the calls logged so far. Creating the
  data stream runs its \<^verbatim>\<open>execute\<close> callback, hence the \<^verbatim>\<open>streamText\<close> call; the
  \<^verbatim>\<open>onFinish\<close> callback, which runs when the model has answered, is outside the model.
\<close>

definition POST_stream ::
  "('a env_scheme) \<Rightarrow> stream_context option \<Rightarrow> post_request \<Rightarrow> post_request_body
     \<Rightarrow> string option \<Rightarrow> effect list \<Rightarrow> (exn + response) \<times> effect list" where
  "POST_stream env globalStreamContext request requestBody defaultPersona effs =
     (case getMessagesByChatId env (body_id requestBody) of
        Inl e \<Rightarrow> (Inl e, effs)
      | Inr previousMessages \<Rightarrow>
          (let messages = appendClientMessage env previousMessages (body_message requestBody);
               requestHints = geolocation request;
               effs1 = effs @ [SaveMessages [userMessage env requestBody]]
           in case saveMessages env [userMessage env requestBody] of
                Inl e \<Rightarrow> (Inl e, effs1)
              | Inr u \<Rightarrow>
                  (let streamId = generateUUID env;
                       effs2 = effs1 @ [CreateStreamId streamId (body_id requestBody)]
                   in case createStreamId env streamId (body_id requestBody) of
                        Inl e \<Rightarrow> (Inl e, effs2)
                      | Inr u \<Rightarrow>
                          (case getModelForChat env (selectedChatModel requestBody)
                                  (body_message requestBody) of
                             Inl e \<Rightarrow> (Inl e, effs2)
                           | Inr model \<Rightarrow>
                               (let call =
                                      \<lparr>call_model = model,
                                       system = systemPrompt env (selectedChatModel requestBody)
                                                  requestHints defaultPersona,
                                       call_messages = messages,
                                       maxSteps = 5,
                                       experimental_activeTools =
                                         activeTools (selectedChatModel requestBody),
                                       tools = [''getWeather'', ''createDocument'',
                                                ''updateDocument'', ''requestSuggestions'',
                                                ''braveSearch'']\<rparr>;
                                    stream = [MergeIntoDataStream call];
                                    effs3 = effs2 @ [StreamText call]
                                in case fst (getStreamContext env globalStreamContext) of
                                     Inl e \<Rightarrow> (Inl e, effs3)
                                   | Inr None \<Rightarrow>
                                       (Inr \<lparr>status = 200, body = Stream stream\<rparr>, effs3)
                                   | Inr (Some streamContext) \<Rightarrow>
                                       (case resumableStream streamContext streamId stream of
                                          Inl e \<Rightarrow> (Inl e, effs3 @ [ResumableStream streamId])
                                        | Inr None \<Rightarrow>
                                            (Inr \<lparr>status = 200, body = NoBody\<rparr>,
                                             effs3 @ [ResumableStream streamId])
                                        | Inr (Some s) \<Rightarrow>
                                            (Inr \<lparr>status = 200, body = Stream s\<rparr>,
                                             effs3 @ [ResumableStream streamId])))))))"

text \<open>The \<^verbatim>\<open>try\<close> block of the handler, up to the chat's creation or authorisation.\<close>

definition POST_try ::
  "('a env_scheme) \<Rightarrow> stream_context option \<Rightarrow> post_request \<Rightarrow> post_request_body
     \<Rightarrow> (exn + response) \<times> effect list" where
  "POST_try env globalStreamContext request requestBody =
     (case auth env of
        Inl e \<Rightarrow> (Inl e, [])
      | Inr session \<Rightarrow>
          (case (case session of None \<Rightarrow> None | Some s \<Rightarrow> session_user s) of
             None \<Rightarrow> (Inr \<lparr>status = 401, body = Text ''Unauthorized''\<rparr>, [])
           | Some user \<Rightarrow>
               (let defaultPersona =
                      (case getDefaultUserPersona env (user_id user) of
                         Inr p \<Rightarrow> p
                       | Inl e \<Rightarrow> None)
                in case getMessageCountByUserId env (user_id user) 24 of
                     Inl e \<Rightarrow> (Inl e, [])
                   | Inr messageCount \<Rightarrow>
                       if messageCount > maxMessagesPerDay (entitlementsByUserType (user_type user))
                       then
                         (Inr \<lparr>status = 429,
                               body = Text ''You have exceeded your maximum number of messages for the day! Please try again later.''\<rparr>,
                          [])
                       else
                         (case getChatById env (body_id requestBody) of
                            Inl e \<Rightarrow> (Inl e, [])
                          | Inr None \<Rightarrow>
                              (case generateTitleFromUserMessage env (body_message requestBody) of
                                 Inl e \<Rightarrow> (Inl e, [GenerateTitle (body_message requestBody)])
                               | Inr newTitle \<Rightarrow>
                                   (let effs = [GenerateTitle (body_message requestBody),
                                                SaveChat (body_id requestBody) (user_id user) newTitle
                                                  (selectedVisibilityType requestBody)]
                                    in case saveChat env (body_id requestBody) (user_id user) newTitle
                                              (selectedVisibilityType requestBody) of
                                         Inl e \<Rightarrow> (Inl e, effs)
                                       | Inr u \<Rightarrow>
                                           POST_stream env globalStreamContext request requestBody
                                             defaultPersona effs))
                          | Inr (Some chat) \<Rightarrow>
                              if userId chat \<noteq> user_id user
                              then (Inr \<lparr>status = 403, body = Text ''Forbidden''\<rparr>, [])
                              else POST_stream env globalStreamContext request requestBody
                                     defaultPersona []))))"

text \<open>
  The handler: the response and the calls it made. A throw inside the \<^verbatim>\<open>try\<close> block
  becomes the 500 response.
\<close>

definition POST ::
  "('a env_scheme) \<Rightarrow> stream_context option \<Rightarrow> post_request \<Rightarrow> response \<times> effect list" where
  "POST env globalStreamContext request =
     (case parsed_body request of
        None \<Rightarrow> (\<lparr>status = 400, body = Text ''Invalid request body''\<rparr>, [])
      | Some requestBody \<Rightarrow>
          (case POST_try env globalStreamContext request requestBody of
             (Inr r, effs) \<Rightarrow> (r, effs)
           | (Inl error, effs) \<Rightarrow>
               (\<lparr>status = 500,
                 body = Text ''An error occurred while processing your request!''\<rparr>, effs)))"

section \<open>GET (route.ts)\<close>

text \<open>
  \<^verbatim>\<open>differenceInSeconds\<close> of date-fns: the difference of the two instants in
  milliseconds, divided by 1000 and rounded toward zero (\<^verbatim>\<open>Math.trunc\<close>, the default
  rounding method).
\<close>

definition differenceInSeconds :: "int \<Rightarrow> int \<Rightarrow> int" where
  "differenceInSeconds laterDate earlierDate =
     (let diff = laterDate - earlierDate
      in if 0 \<le> diff then diff div 1000 else - ((- diff) div 1000))"

text \<open>
  The branch taken when \<^verbatim>\<open>resumableStream\<close> answers null: the stream has concluded,
  and the most recent persisted message decides the response.
\<close>

definition GET_restore ::
  "('a env_scheme) \<Rightarrow> int \<Rightarrow> string \<Rightarrow> exn + response" where
  "GET_restore env resumeRequestedAt cid =
     (case getMessagesByChatId env cid of
        Inl e \<Rightarrow> Inl e
      | Inr messages \<Rightarrow>
          if messages = [] then Inr \<lparr>status = 200, body = Stream []\<rparr>
          else
            (let mostRecentMessage = last messages
             in if role mostRecentMessage \<noteq> ''assistant''
                then Inr \<lparr>status = 200, body = Stream []\<rparr>
                else if differenceInSeconds resumeRequestedAt (createdAt mostRecentMessage) > 15
                then Inr \<lparr>status = 200, body = Stream []\<rparr>
                else Inr \<lparr>status = 200,
                          body = Stream [WriteData ''append-message'' mostRecentMessage]\<rparr>))"

text \<open>
  The handler. Nothing but the \<^verbatim>\<open>getChatById\<close> call is inside a \<^verbatim>\<open>try\<close>, so any
  other throw leaves the handler (\<open>Inl\<close>). \<^verbatim>\<open>!chatId\<close> holds for null and for the
  empty string, \<^verbatim>\<open>!recentStreamId\<close> for the empty string.
\<close>

definition GET ::
  "('a env_scheme) \<Rightarrow> stream_context option \<Rightarrow> get_request \<Rightarrow> exn + response" where
  "GET env globalStreamContext request =
     (case fst (getStreamContext env globalStreamContext) of
        Inl e \<Rightarrow> Inl e
      | Inr None \<Rightarrow> Inr \<lparr>status = 204, body = NoBody\<rparr>
      | Inr (Some streamContext) \<Rightarrow>
          (let resumeRequestedAt = now env
           in case (case get_chatId request of
                      None \<Rightarrow> None
                    | Some c \<Rightarrow> if c = [] then None else Some c) of
                None \<Rightarrow> Inr \<lparr>status = 400, body = Text ''id is required''\<rparr>
              | Some cid \<Rightarrow>
                  (case auth env of
                     Inl e \<Rightarrow> Inl e
                   | Inr session \<Rightarrow>
                       (case (case session of None \<Rightarrow> None | Some s \<Rightarrow> session_user s) of
                          None \<Rightarrow> Inr \<lparr>status = 401, body = Text ''Unauthorized''\<rparr>
                        | Some user \<Rightarrow>
                            (case getChatById env cid of
                               Inl e \<Rightarrow> Inr \<lparr>status = 404, body = Text ''Not found''\<rparr>
                             | Inr None \<Rightarrow> Inr \<lparr>status = 404, body = Text ''Not found''\<rparr>
                             | Inr (Some chat) \<Rightarrow>
                                 if visibility chat = Private \<and> userId chat \<noteq> user_id user
                                 then Inr \<lparr>status = 403, body = Text ''Forbidden''\<rparr>
                                 else
                                   (case getStreamIdsByChatId env cid of
                                      Inl e \<Rightarrow> Inl e
                                    | Inr streamIds \<Rightarrow>
                                        if streamIds = []
                                        then Inr \<lparr>status = 404, body = Text ''No streams found''\<rparr>
                                        else if last streamIds = []
                                        then Inr \<lparr>status = 404,
                                                  body = Text ''No recent stream found''\<rparr>
                                        else
                                          (case resumableStream streamContext (last streamIds) [] of
                                             Inl e \<Rightarrow> Inl e
                                           | Inr None \<Rightarrow> GET_restore env resumeRequestedAt cid
                                           | Inr (Some stream) \<Rightarrow>
                                               Inr \<lparr>status = 200, body = Stream stream\<rparr>)))))))"

section \<open>DELETE (route.ts)\<close>

text \<open>
  \<^verbatim>\<open>getChatById\<close> gives the chat or undefined; \<^verbatim>\<open>chat.userId\<close> on undefined is a
  TypeError, thrown inside the \<^verbatim>\<open>try\<close> block like a failure of either query.
  The body of the 200 response is the deleted record as JSON.
\<close>

definition DELETE_try :: "('a env_scheme) \<Rightarrow> string \<Rightarrow> user \<Rightarrow> exn + response" where
  "DELETE_try env cid user =
     (case getChatById env cid of
        Inl e \<Rightarrow> Inl e
      | Inr None \<Rightarrow> Inl TypeError
      | Inr (Some chat) \<Rightarrow>
          if userId chat \<noteq> user_id user
          then Inr \<lparr>status = 403, body = Text ''Forbidden''\<rparr>
          else
            (case deleteChatById env cid of
               Inl e \<Rightarrow> Inl e
             | Inr deletedChat \<Rightarrow> Inr \<lparr>status = 200, body = Json deletedChat\<rparr>))"

definition DELETE :: "('a env_scheme) \<Rightarrow> delete_request \<Rightarrow> exn + response" where
  "DELETE env request =
     (case (case delete_id request of
              None \<Rightarrow> None
            | Some c \<Rightarrow> if c = [] then None else Some c) of
        None \<Rightarrow> Inr \<lparr>status = 404, body = Text ''Not Found''\<rparr>
      | Some cid \<Rightarrow>
          (case auth env of
             Inl e \<Rightarrow> Inl e
           | Inr session \<Rightarrow>
               (case (case session of None \<Rightarrow> None | Some s \<Rightarrow> session_user s) of
                  None \<Rightarrow> Inr \<lparr>status = 401, body = Text ''Unauthorized''\<rparr>
                | Some user \<Rightarrow>
                    if user_id user = []
                    then Inr \<lparr>status = 401, body = Text ''Unauthorized''\<rparr>
                    else
                      (case DELETE_try env cid user of
                         Inr r \<Rightarrow> Inr r
                       | Inl error \<Rightarrow>
                           Inr \<lparr>status = 500,
                                body = Text ''An error occurred while processing your request!''\<rparr>))))"

section \<open>Reading the log of calls\<close>

text \<open>The rows a log of calls hands to \<^verbatim>\<open>saveMessages\<close>, in order.\<close>

fun savedMessages :: "effect list \<Rightarrow> db_message list" where
  "savedMessages [] = []"
| "savedMessages (SaveMessages ms # es) = ms @ savedMessages es"
| "savedMessages (e # es) = savedMessages es"

section \<open>A concrete deployment\<close>

text \<open>
  The environment the closed theorems below are evaluated in: every SDK constructor
  answers with the handle it is asked for, \<^verbatim>\<open>myProvider\<close> has no
  \<^verbatim>\<open>languageModels\<close> property and its method \<^verbatim>\<open>languageModel\<close> answers from the
  production table of \<^verbatim>\<open>providers.ts\<close>, the database holds the xAI provider and its
  Grok-2 model as
  \<^verbatim>\<open>seed-providers.ts\<close> inserts them, and one private chat of user \<^verbatim>\<open>alice\<close>
  whose last message is an assistant reply persisted 15.5 seconds before the clock's
  \<open>now\<close>.
\<close>

definition sdk_of :: "string \<Rightarrow> sdk" where
  "sdk_of provider modelId = Inr (LanguageModel provider modelId)"

definition production_languageModels :: "string \<rightharpoonup> handle" where
  "production_languageModels = map_of
     [(''openai-gpt4o'', LanguageModel ''openai'' ''gpt-4o''),
      (''openai-o3mini'', LanguageModel ''openai'' ''o3-mini''),
      (''openai-reasoning'', WrapLanguageModel (LanguageModel ''openai'' ''gpt-4o'')),
      (''xai-grok2'', LanguageModel ''xai'' ''grok-2-1212''),
      (''xai-grok2-vision'', LanguageModel ''xai'' ''grok-2-vision-1212''),
      (''xai-grok3-mini'', WrapLanguageModel (LanguageModel ''xai'' ''grok-3-mini-beta'')),
      (''anthropic-claude-3-5-sonnet'', LanguageModel ''anthropic'' ''claude-3.5-sonnet-20241022''),
      (''anthropic-claude-3-5-haiku'', LanguageModel ''anthropic'' ''claude-3.5-haiku-20241022''),
      (''anthropic-claude-3-opus'', LanguageModel ''anthropic'' ''claude-3-opus-20240229''),
      (''anthropic-claude-instant'', LanguageModel ''anthropic'' ''claude-instant-1.2''),
      (''chat-model'', LanguageModel ''openai'' ''gpt-4o''),
      (''chat-model-reasoning'', WrapLanguageModel (LanguageModel ''openai'' ''gpt-4o'')),
      (''title-model'', LanguageModel ''openai'' ''gpt-3.5-turbo''),
      (''artifact-model'', LanguageModel ''openai'' ''gpt-4o'')]"

definition grok_row :: provider_model_row where
  "grok_row =
     \<lparr>pm_id = ''3f2b8c1e-5d4a-4e6f-9a7b-0c1d2e3f4a5b'', pm_providerId = ''xai-provider-id'',
      pm_name = ''Grok-2'', pm_modelId = ''grok-2-1212'', isChat = True, isImage = False,
      pm_enabled = True\<rparr>"

definition xai_row :: provider_row where
  "xai_row =
     \<lparr>prov_id = ''xai-provider-id'', prov_name = ''xAI'', slug = ''xai'', prov_enabled = True\<rparr>"

definition alice :: user where
  "alice = \<lparr>user_id = ''alice'', user_type = Guest\<rparr>"

definition bob :: user where
  "bob = \<lparr>user_id = ''bob'', user_type = Regular\<rparr>"

definition alice_chat :: chat where
  "alice_chat =
     \<lparr>chat_id = ''chat-1'', chat_createdAt = 900000, title = ''Greetings'',
      userId = ''alice'', visibility = Private\<rparr>"

definition assistant_reply :: db_message where
  "assistant_reply =
     \<lparr>dbm_id = ''m0'', chatId = ''chat-1'', role = ''assistant'',
      dbm_parts = [''Hello!''], attachments = [], createdAt = 984500\<rparr>"

text \<open>The store has concluded \<^verbatim>\<open>stream-1\<close>; any other id starts a new stream.\<close>

definition example_context :: stream_context where
  "example_context =
     \<lparr>resumableStream =
        (\<lambda>streamId s. Inr (if streamId = ''stream-1'' then None else Some s))\<rparr>"

definition to_ui :: "db_message \<Rightarrow> ui_message" where
  "to_ui m =
     \<lparr>msg_id = dbm_id m, msg_createdAt = createdAt m, msg_role = role m,
      content = concat (dbm_parts m), parts = dbm_parts m,
      experimental_attachments = Some (attachments m)\<rparr>"

definition example_env :: env where
  "example_env =
     \<lparr>openai = sdk_of ''openai'', xai = sdk_of ''xai'',
      require_anthropic = Inr (Some (sdk_of ''anthropic'')),
      anthropic_import = Some (sdk_of ''anthropic''),
      languageModels = None,
      languageModel = (\<lambda>modelId. case production_languageModels modelId of
                         Some h \<Rightarrow> Inr h
                       | None \<Rightarrow> Inl (Error (Some ''NoSuchModelError'') None)),
      select_providerModel =
        (\<lambda>modelId. Inr (if modelId = pm_id grok_row then [grok_row] else [])),
      getProviderById = (\<lambda>i. Inr (if i = prov_id xai_row then Some xai_row else None)),
      auth = Inr (Some \<lparr>session_user = Some alice\<rparr>),
      getDefaultUserPersona = (\<lambda>uid. Inr None),
      getMessageCountByUserId = (\<lambda>uid hours. Inr 20),
      getChatById = (\<lambda>i. Inr (if i = ''chat-1'' then Some alice_chat else None)),
      generateTitleFromUserMessage = (\<lambda>m. Inr (content m)),
      saveChat = (\<lambda>i uid t v. Inr ()),
      getMessagesByChatId = (\<lambda>i. Inr (if i = ''chat-1'' then [assistant_reply] else [])),
      saveMessages = (\<lambda>ms. Inr ()),
      createStreamId = (\<lambda>streamId i. Inr ()),
      getStreamIdsByChatId = (\<lambda>i. Inr (if i = ''chat-1'' then [''stream-1''] else [])),
      deleteChatById = (\<lambda>i. Inr i),
      appendClientMessage = (\<lambda>previous m. map to_ui previous @ [m]),
      systemPrompt = (\<lambda>selected hints persona. ''You are a friendly assistant!''),
      generateUUID = ''stream-2'',
      now = 1000000,
      REDIS_URL = Some ''redis://localhost:6379'',
      UPSTASH_REDIS_REST_URL = None,
      createResumableStreamContext = Inr example_context\<rparr>"

definition text_message :: ui_message where
  "text_message =
     \<lparr>msg_id = ''m1'', msg_createdAt = 1000000, msg_role = ''user'', content = ''hello'',
      parts = [''hello''], experimental_attachments = None\<rparr>"

definition pdf_message :: ui_message where
  "pdf_message =
     \<lparr>msg_id = ''m2'', msg_createdAt = 1000000, msg_role = ''user'', content = ''summarise'',
      parts = [''summarise''],
      experimental_attachments =
        Some [\<lparr>url = ''https://example.com/a.pdf'', att_name = ''a.pdf'',
               contentType = ''application/pdf''\<rparr>]\<rparr>"

definition example_body :: "string \<Rightarrow> post_request_body" where
  "example_body selected =
     \<lparr>body_id = ''chat-1'', body_message = text_message,
      selectedChatModel = selected, selectedVisibilityType = Private\<rparr>"

definition example_post :: "string \<Rightarrow> post_request" where
  "example_post selected =
     \<lparr>parsed_body = Some (example_body selected),
      geolocation = \<lparr>longitude = None, latitude = None, city = None, country = None\<rparr>\<rparr>"

text \<open>The \<^verbatim>\<open>streamText\<close> call the example request leads to.\<close>

definition example_call :: "string \<Rightarrow> handle \<Rightarrow> stream_text_call" where
  "example_call selected model =
     \<lparr>call_model = model,
      system = ''You are a friendly assistant!'',
      call_messages = [to_ui assistant_reply, text_message],
      maxSteps = 5,
      experimental_activeTools = activeTools selected,
      tools = [''getWeather'', ''createDocument'', ''updateDocument'',
               ''requestSuggestions'', ''braveSearch'']\<rparr>"

text \<open>
  The test deployment: the registry is built from the test table, which has no
  \<^verbatim>\<open>openai-gpt4o\<close>. And a constructor that throws.
\<close>

definition unavailable :: exn where
  "unavailable = Error (Some ''provider unavailable'') None"

definition throwing_sdk :: sdk where
  "throwing_sdk modelId = Inl unavailable"

definition test_languageModels :: "string \<rightharpoonup> handle" where
  "test_languageModels = map_of
     [(''chat-model'', LanguageModel ''test'' ''chat-model''),
      (''chat-model-reasoning'', LanguageModel ''test'' ''reasoning-model''),
      (''title-model'', LanguageModel ''test'' ''title-model''),
      (''artifact-model'', LanguageModel ''test'' ''artifact-model'')]"

definition test_env :: env where
  "test_env = example_env
     \<lparr>languageModel := (\<lambda>modelId. case test_languageModels modelId of
                          Some h \<Rightarrow> Inr h
                        | None \<Rightarrow> Inl (Error (Some ''NoSuchModelError'') None))\<rparr>"

text \<open>A deployment without a Redis URL, and the session of a second user.\<close>

definition no_redis_env :: env where
  "no_redis_env = example_env\<lparr>REDIS_URL := None\<rparr>"

definition bob_session :: "exn + session option" where
  "bob_session = Inr (Some \<lparr>session_user = Some bob\<rparr>)"

text \<open>
  The same deployment with 21 messages counted for the user, with the clock half a
  second later, and the reconnect request for the chat.
\<close>

definition over_quota_env :: env where
  "over_quota_env = example_env\<lparr>getMessageCountByUserId := (\<lambda>uid hours. Inr 21)\<rparr>"

definition late_env :: env where
  "late_env = example_env\<lparr>now := 1000500\<rparr>"

definition chat1_request :: get_request where
  "chat1_request = \<lparr>get_chatId = Some ''chat-1''\<rparr>"

text \<open>The chat made public, read by the second user.\<close>

definition public_env :: env where
  "public_env = example_env
     \<lparr>auth := bob_session,
      getChatById := (\<lambda>i. Inr (Some (alice_chat\<lparr>visibility := Public\<rparr>)))\<rparr>"

section \<open>Unfolding rules\<close>

lemmas ex_defs = example_env_def sdk_of_def production_languageModels_def grok_row_def
  xai_row_def alice_def bob_def alice_chat_def assistant_reply_def example_context_def
  to_ui_def text_message_def example_body_def example_post_def

lemmas resolver_defs = getModelForChat_def getDynamicLanguageModel_def databaseModel_def
  getProviderModel_def providerSDKs_def anthropic_def pdfCapableModel_def hasPDFAttachment_def

lemmas post_defs = POST_def POST_try_def POST_stream_def userMessage_def getStreamContext_def
  Let_def

lemmas get_defs = GET_def GET_restore_def getStreamContext_def Let_def differenceInSeconds_def

section \<open>Model resolution\<close>

text \<open>
  C1. The claim: a 36-character UUID that matches an enabled persisted provider/model row
  resolves, for a message without PDF attachment, through the persisted records to the
  handle the Provider Registry builds from the provider's slug and the row's native model
  id. The code does not do so: \<^verbatim>\<open>getModelForChat\<close> first returns whatever
  \<^verbatim>\<open>getDynamicLanguageModel\<close> returns, and that function answers an id that contains
  \<^verbatim>\<open>-\<close> and is longer than 30 with \<^verbatim>\<open>openai('gpt-4o')\<close>. In the concrete deployment
  the row of \<^verbatim>\<open>3f2b8c1e-5d4a-4e6f-9a7b-0c1d2e3f4a5b\<close> is enabled, its provider's slug is
  \<^verbatim>\<open>xai\<close> and the registry builds the xAI handle for it, yet resolution returns the
  OpenAI default, whatever the two database queries would answer.
\<close>

theorem C1_uuid_resolves_to_default:
  "length ''3f2b8c1e-5d4a-4e6f-9a7b-0c1d2e3f4a5b'' = 36
   \<and> select_providerModel example_env ''3f2b8c1e-5d4a-4e6f-9a7b-0c1d2e3f4a5b'' = Inr [grok_row]
   \<and> pm_enabled grok_row
   \<and> getProviderById example_env (pm_providerId grok_row) = Inr (Some xai_row)
   \<and> getProviderModel example_env (slug xai_row) (pm_modelId grok_row)
       = Inr (LanguageModel ''xai'' ''grok-2-1212'')
   \<and> \<not> hasPDFAttachment text_message
   \<and> (\<forall>rows providers.
         getModelForChat
           (example_env\<lparr>select_providerModel := rows, getProviderById := providers\<rparr>)
           ''3f2b8c1e-5d4a-4e6f-9a7b-0c1d2e3f4a5b'' text_message
         = Inr (LanguageModel ''openai'' ''gpt-4o''))"
  by (simp add: ex_defs resolver_defs)

text \<open>
  The registry on slugs it has no SDK for: an unknown slug and the uncallable
  \<^verbatim>\<open>__proto__\<close> give the default handle, an inherited method gives its own result.
\<close>

lemma getProviderModel_other_slugs:
  "getProviderModel example_env ''mistral'' ''mistral-large'' = Inr (LanguageModel ''openai'' ''gpt-4o'')
   \<and> getProviderModel example_env ''__proto__'' ''gpt-4o'' = Inr (LanguageModel ''openai'' ''gpt-4o'')
   \<and> getProviderModel example_env ''toString'' ''gpt-4o''
       = Inr (NotAModel (JsString ''[object Object]''))"
  by (simp add: ex_defs getProviderModel_def providerSDKs_def objectPrototype_def TypeError_def)

text \<open>
  C2. With \<open>d\<close> the hard-coded default handle, the value of \<^verbatim>\<open>openai('gpt-4o')\<close>:
  for every model identifier and every inbound message, model resolution returns a handle
  and throws nothing to its caller, whatever the registry, the database queries and the
  other constructors do (miss, error, throw); and the handle is \<open>d\<close> unless it is one
  a step resolved: the PDF-capable handle, the predefined handle of the identifier, or the
  one \<^verbatim>\<open>myProvider.languageModel('openai-gpt4o')\<close> returned.
\<close>

theorem C2_resolution_returns_handle:
  assumes "openai env ''gpt-4o'' = Inr d"
  shows "\<exists>h. getModelForChat env modelId message = Inr h \<and>
           (h = d \<or> pdfCapableModel env = Inr h
            \<or> (\<exists>t. languageModels env = Some t \<and> t modelId = Some h)
            \<or> languageModel env ''openai-gpt4o'' = Inr h)"
  using assms
  by (auto simp: getModelForChat_def getDynamicLanguageModel_def split: option.splits sum.splits)

theorem C2_witness:
  "openai test_env ''gpt-4o'' = Inr (LanguageModel ''openai'' ''gpt-4o'')
   \<and> languageModel test_env ''openai-gpt4o'' = Inl (Error (Some ''NoSuchModelError'') None)
   \<and> getModelForChat test_env ''abcde'' text_message = Inr (LanguageModel ''openai'' ''gpt-4o'')
   \<and> getModelForChat (test_env\<lparr>anthropic_import := Some throwing_sdk\<rparr>) ''abcde'' pdf_message
       = Inr (LanguageModel ''openai'' ''gpt-4o'')"
proof -
  let ?t = "test_env\<lparr>anthropic_import := Some throwing_sdk\<rparr>"
  have d: "openai test_env ''gpt-4o'' = Inr (LanguageModel ''openai'' ''gpt-4o'')"
          "openai ?t ''gpt-4o'' = Inr (LanguageModel ''openai'' ''gpt-4o'')"
    by (simp_all add: test_env_def ex_defs)
  have m: "languageModel test_env ''openai-gpt4o'' = Inl (Error (Some ''NoSuchModelError'') None)"
          "languageModel ?t ''openai-gpt4o'' = Inl (Error (Some ''NoSuchModelError'') None)"
          "languageModels test_env = None" "languageModels ?t = None"
          "pdfCapableModel test_env = Inr (LanguageModel ''anthropic'' ''claude-3.5-sonnet-20241022'')"
          "pdfCapableModel ?t = Inl unavailable"
    by (simp_all add: test_env_def test_languageModels_def throwing_sdk_def pdfCapableModel_def
          ex_defs)
  have 1: "getModelForChat test_env ''abcde'' text_message = Inr (LanguageModel ''openai'' ''gpt-4o'')"
    by (simp add: test_env_def test_languageModels_def ex_defs resolver_defs)
  from C2_resolution_returns_handle [OF d(2), of "''abcde''" pdf_message]
  have 2: "getModelForChat ?t ''abcde'' pdf_message = Inr (LanguageModel ''openai'' ''gpt-4o'')"
    by (auto simp: m)
  from d(1) m(1) 1 2 show ?thesis by simp
qed

text \<open>
  C7. For every message with an attachment of type \<^verbatim>\<open>application/pdf\<close> and every
  selected identifier: when the PDF-capable construction (Claude through the Anthropic
  binding, \<^verbatim>\<open>openai('gpt-4o')\<close> when the binding is absent) yields a handle,
  resolution returns it, before any later step. And with the provider object as
  \<^verbatim>\<open>customProvider\<close> builds it (no \<^verbatim>\<open>languageModels\<close> property, the entry
  \<^verbatim>\<open>openai-gpt4o\<close> the default handle \<open>d\<close> or, in the test registry, missing),
  resolution returns the Claude handle, or \<open>d\<close> when the binding is absent or its
  construction throws: the result does not depend on the selected identifier.
\<close>

theorem C7_pdf_precedence:
  assumes "hasPDFAttachment message"
  shows "(\<forall>h. pdfCapableModel env = Inr h \<longrightarrow> getModelForChat env modelId message = Inr h)
       \<and> (languageModels env = None \<longrightarrow> openai env ''gpt-4o'' = Inr d
            \<longrightarrow> (languageModel env ''openai-gpt4o'' = Inr d
                 \<or> (\<exists>e. languageModel env ''openai-gpt4o'' = Inl e))
            \<longrightarrow> getModelForChat env modelId message =
                  (case anthropic_import env of
                     Some a \<Rightarrow>
                       (case a ''claude-3.5-sonnet-20241022'' of
                          Inr h \<Rightarrow> Inr h
                        | Inl e \<Rightarrow> Inr d)
                   | None \<Rightarrow> Inr d))"
  using assms
  by (auto simp: getModelForChat_def pdfCapableModel_def getDynamicLanguageModel_def
           split: option.splits sum.splits)

theorem C7_witness:
  "hasPDFAttachment pdf_message
   \<and> getModelForChat example_env ''xai-grok2'' pdf_message
       = Inr (LanguageModel ''anthropic'' ''claude-3.5-sonnet-20241022'')
   \<and> getModelForChat (example_env\<lparr>anthropic_import := None\<rparr>) ''xai-grok2'' pdf_message
       = Inr (LanguageModel ''openai'' ''gpt-4o'')
   \<and> getModelForChat (example_env\<lparr>anthropic_import := Some throwing_sdk\<rparr>)
        ''xai-grok2'' pdf_message = Inr (LanguageModel ''openai'' ''gpt-4o'')
   \<and> getModelForChat (example_env\<lparr>anthropic_import := Some throwing_sdk\<rparr>)
        ''3f2b8c1e-5d4a-4e6f-9a7b-0c1d2e3f4a5b'' pdf_message
       = Inr (LanguageModel ''openai'' ''gpt-4o'')
   \<and> getModelForChat (test_env\<lparr>anthropic_import := Some throwing_sdk\<rparr>)
        ''chat-model'' pdf_message = Inr (LanguageModel ''openai'' ''gpt-4o'')"
proof -
  let ?n = "example_env\<lparr>anthropic_import := None\<rparr>"
  let ?x = "example_env\<lparr>anthropic_import := Some throwing_sdk\<rparr>"
  let ?t = "test_env\<lparr>anthropic_import := Some throwing_sdk\<rparr>"
  let ?d = "LanguageModel ''openai'' ''gpt-4o''"
  have p: "hasPDFAttachment pdf_message"
    by (simp add: pdf_message_def hasPDFAttachment_def)
  have c: "pdfCapableModel example_env
             = Inr (LanguageModel ''anthropic'' ''claude-3.5-sonnet-20241022'')"
    by (simp add: pdfCapableModel_def ex_defs)
  have n: "languageModels ?n = None" "openai ?n ''gpt-4o'' = Inr ?d"
          "languageModel ?n ''openai-gpt4o'' = Inr ?d" "anthropic_import ?n = None"
    by (simp_all add: ex_defs)
  have x: "languageModels ?x = None" "openai ?x ''gpt-4o'' = Inr ?d"
          "languageModel ?x ''openai-gpt4o'' = Inr ?d"
          "anthropic_import ?x = Some throwing_sdk"
    by (simp_all add: ex_defs)
  have t: "languageModels ?t = None" "openai ?t ''gpt-4o'' = Inr ?d"
          "languageModel ?t ''openai-gpt4o'' = Inl (Error (Some ''NoSuchModelError'') None)"
          "anthropic_import ?t = Some throwing_sdk"
    by (simp_all add: test_env_def test_languageModels_def ex_defs)
  have 1: "getModelForChat example_env ''xai-grok2'' pdf_message
             = Inr (LanguageModel ''anthropic'' ''claude-3.5-sonnet-20241022'')"
    using C7_pdf_precedence [OF p, of example_env "''xai-grok2''"] c by simp
  have 2: "getModelForChat ?n ''xai-grok2'' pdf_message = Inr ?d"
    using C7_pdf_precedence [OF p, of ?n "''xai-grok2''" ?d] n by simp
  have 3: "getModelForChat ?x ''xai-grok2'' pdf_message = Inr ?d"
    using C7_pdf_precedence [OF p, of ?x "''xai-grok2''" ?d] x
    by (simp add: throwing_sdk_def)
  have 4: "getModelForChat ?x ''3f2b8c1e-5d4a-4e6f-9a7b-0c1d2e3f4a5b'' pdf_message = Inr ?d"
    using C7_pdf_precedence [OF p, of ?x "''3f2b8c1e-5d4a-4e6f-9a7b-0c1d2e3f4a5b''" ?d] x
    by (simp add: throwing_sdk_def)
  have 5: "getModelForChat ?t ''chat-model'' pdf_message = Inr ?d"
    using C7_pdf_precedence [OF p, of ?t "''chat-model''" ?d] t
    by (simp add: throwing_sdk_def)
  from p 1 2 3 4 5 show ?thesis by simp
qed

section \<open>POST\<close>

subsection \<open>The handler and its \<^verbatim>\<open>try\<close> block\<close>

lemma savedMessages_append:
  "savedMessages (xs @ ys) = savedMessages xs @ savedMessages ys"
  by (induction xs rule: savedMessages.induct) auto

lemma POST_snd:
  "parsed_body request = Some b \<Longrightarrow> snd (POST env g request) = snd (POST_try env g request b)"
  by (simp add: POST_def split: prod.splits sum.splits)

lemma POST_fst:
  "parsed_body request = Some b \<Longrightarrow> fst (POST_try env g request b) = Inr r
     \<Longrightarrow> fst (POST env g request) = r"
  by (auto simp: POST_def split: prod.splits sum.splits)

lemma POST_fst_500:
  "parsed_body request = Some b \<Longrightarrow> fst (POST_try env g request b) = Inl e
     \<Longrightarrow> status (fst (POST env g request)) = 500"
  by (auto simp: POST_def split: prod.splits sum.splits)

subsection \<open>What the streaming stage does\<close>

lemma POST_stream_StreamText:
  assumes "StreamText call \<in> set (snd (POST_stream env g request b persona effs))"
  shows "StreamText call \<in> set effs
         \<or> experimental_activeTools call = activeTools (selectedChatModel b)"
  using assms
  by (auto simp: POST_stream_def Let_def split: sum.splits option.splits)

lemma POST_try_StreamText:
  assumes "StreamText call \<in> set (snd (POST_try env g request b))"
  shows "experimental_activeTools call = activeTools (selectedChatModel b)"
  using assms
  by (auto simp: POST_try_def Let_def split: sum.splits option.splits if_splits
           dest!: POST_stream_StreamText)

lemma POST_stream_status:
  "fst (POST_stream env g request b persona effs) = Inr r \<Longrightarrow> status r = 200"
  by (auto simp: POST_stream_def Let_def split: sum.splits option.splits)

lemma POST_stream_saved:
  "getMessagesByChatId env (body_id b) = Inr previous \<Longrightarrow>
   savedMessages (snd (POST_stream env g request b persona effs))
     = savedMessages effs @ [userMessage env b]"
  by (auto simp: POST_stream_def Let_def savedMessages_append split: sum.splits option.splits)

subsection \<open>The example requests\<close>

lemma example_post_grok2:
  "POST example_env None (example_post ''xai-grok2'')
   = (\<lparr>status = 200,
        body = Stream [MergeIntoDataStream
                 (example_call ''xai-grok2'' (LanguageModel ''openai'' ''gpt-4o''))]\<rparr>,
      [SaveMessages [userMessage example_env (example_body ''xai-grok2'')],
       CreateStreamId ''stream-2'' ''chat-1'',
       StreamText (example_call ''xai-grok2'' (LanguageModel ''openai'' ''gpt-4o'')),
       ResumableStream ''stream-2''])"
  by (simp add: post_defs ex_defs example_call_def resolver_defs activeTools_def)

lemma example_post_grok3:
  "POST example_env None (example_post ''xai-grok3-mini'')
   = (\<lparr>status = 200,
        body = Stream [MergeIntoDataStream
                 (example_call ''xai-grok3-mini''
                    (LanguageModel ''openai'' ''gpt-4o''))]\<rparr>,
      [SaveMessages [userMessage example_env (example_body ''xai-grok3-mini'')],
       CreateStreamId ''stream-2'' ''chat-1'',
       StreamText (example_call ''xai-grok3-mini''
                     (LanguageModel ''openai'' ''gpt-4o'')),
       ResumableStream ''stream-2''])"
  by (simp add: post_defs ex_defs example_call_def resolver_defs activeTools_def)

subsection \<open>Tool gating\<close>

text \<open>
  C4. For every POST request with a valid body, every \<^verbatim>\<open>streamText\<close> call the handler
  makes has an empty \<^verbatim>\<open>experimental_activeTools\<close> exactly when the selected model
  identifier is \<^verbatim>\<open>chat-model-reasoning\<close>, \<^verbatim>\<open>openai-reasoning\<close> or
  \<^verbatim>\<open>xai-grok3-mini\<close>, and for every other identifier the five tools
  \<^verbatim>\<open>getWeather\<close>, \<^verbatim>\<open>createDocument\<close>, \<^verbatim>\<open>updateDocument\<close>,
  \<^verbatim>\<open>requestSuggestions\<close>, \<^verbatim>\<open>braveSearch\<close>.
\<close>

theorem C4_active_tools:
  assumes "parsed_body request = Some b"
      and "StreamText call \<in> set (snd (POST env g request))"
  shows "(experimental_activeTools call = []
            \<longleftrightarrow> selectedChatModel b
                  \<in> {''chat-model-reasoning'', ''openai-reasoning'', ''xai-grok3-mini''})
       \<and> (selectedChatModel b
              \<notin> {''chat-model-reasoning'', ''openai-reasoning'', ''xai-grok3-mini''}
            \<longrightarrow> experimental_activeTools call
                = [''getWeather'', ''createDocument'', ''updateDocument'',
                   ''requestSuggestions'', ''braveSearch''])"
proof -
  from assms have "StreamText call \<in> set (snd (POST_try env g request b))"
    by (simp add: POST_snd)
  then have "experimental_activeTools call = activeTools (selectedChatModel b)"
    by (rule POST_try_StreamText)
  then show ?thesis by (simp add: activeTools_def)
qed

theorem C4_witness:
  "StreamText (example_call ''xai-grok2'' (LanguageModel ''openai'' ''gpt-4o''))
     \<in> set (snd (POST example_env None (example_post ''xai-grok2'')))
   \<and> experimental_activeTools (example_call ''xai-grok2'' (LanguageModel ''openai'' ''gpt-4o''))
       = [''getWeather'', ''createDocument'', ''updateDocument'', ''requestSuggestions'',
          ''braveSearch'']
   \<and> StreamText (example_call ''xai-grok3-mini''
                   (LanguageModel ''openai'' ''gpt-4o''))
     \<in> set (snd (POST example_env None (example_post ''xai-grok3-mini'')))
   \<and> experimental_activeTools
        (example_call ''xai-grok3-mini''
           (LanguageModel ''openai'' ''gpt-4o'')) = []"
proof -
  have b2: "parsed_body (example_post ''xai-grok2'') = Some (example_body ''xai-grok2'')"
   and b3: "parsed_body (example_post ''xai-grok3-mini'') = Some (example_body ''xai-grok3-mini'')"
    by (simp_all add: example_post_def)
  have s2: "StreamText (example_call ''xai-grok2'' (LanguageModel ''openai'' ''gpt-4o''))
     \<in> set (snd (POST example_env None (example_post ''xai-grok2'')))"
    by (simp add: example_post_grok2)
  have s3: "StreamText (example_call ''xai-grok3-mini''
                          (LanguageModel ''openai'' ''gpt-4o''))
     \<in> set (snd (POST example_env None (example_post ''xai-grok3-mini'')))"
    by (simp add: example_post_grok3)
  have m2: "selectedChatModel (example_body ''xai-grok2'') = ''xai-grok2''"
   and m3: "selectedChatModel (example_body ''xai-grok3-mini'') = ''xai-grok3-mini''"
    by (simp_all add: example_body_def)
  from C4_active_tools [OF b2 s2] C4_active_tools [OF b3 s3] s2 s3 show ?thesis
    by (simp add: m2 m3)
qed

subsection \<open>The daily quota\<close>

text \<open>
  C6. For every request with a valid body of an authenticated user whose message count
  over the preceding 24 hours, as \<^verbatim>\<open>getMessageCountByUserId\<close> reports it, exceeds the
  \<^verbatim>\<open>maxMessagesPerDay\<close> of the user's type, POST answers 429 and has made no call with
  an effect: no title generation and no \<^verbatim>\<open>streamText\<close> (the model calls), no
  \<^verbatim>\<open>saveChat\<close>, no \<^verbatim>\<open>saveMessages\<close>, no \<^verbatim>\<open>createStreamId\<close>, no resumable stream.
\<close>

theorem C6_quota_exceeded:
  assumes "parsed_body request = Some b"
      and "auth env = Inr (Some s)"
      and "session_user s = Some u"
      and "getMessageCountByUserId env (user_id u) 24 = Inr n"
      and "n > maxMessagesPerDay (entitlementsByUserType (user_type u))"
  shows "POST env g request =
           (\<lparr>status = 429,
              body = Text ''You have exceeded your maximum number of messages for the day! Please try again later.''\<rparr>,
            [])"
  using assms by (simp add: POST_def POST_try_def Let_def)

theorem C6_witness:
  "POST over_quota_env None (example_post ''xai-grok2'') =
     (\<lparr>status = 429,
        body = Text ''You have exceeded your maximum number of messages for the day! Please try again later.''\<rparr>,
      [])"
proof -
  have "parsed_body (example_post ''xai-grok2'') = Some (example_body ''xai-grok2'')"
    by (simp add: example_post_def)
  moreover have "auth over_quota_env = Inr (Some \<lparr>session_user = Some alice\<rparr>)"
    by (simp add: over_quota_env_def example_env_def)
  moreover have "session_user \<lparr>session_user = Some alice\<rparr> = Some alice" by simp
  moreover have "getMessageCountByUserId over_quota_env (user_id alice) 24 = Inr 21"
    by (simp add: over_quota_env_def example_env_def)
  moreover have "(21::int) > maxMessagesPerDay (entitlementsByUserType (user_type alice))"
    by (simp add: alice_def)
  ultimately show ?thesis by (rule C6_quota_exceeded)
qed

lemma POST_try_429:
  assumes "auth env = Inr (Some s)"
      and "session_user s = Some u"
      and "getMessageCountByUserId env (user_id u) 24 = Inr n"
      and "\<not> n > maxMessagesPerDay (entitlementsByUserType (user_type u))"
      and "fst (POST_try env g request b) = Inr r"
  shows "status r \<noteq> 429"
  using assms
  by (auto simp: POST_try_def Let_def split: sum.splits option.splits if_splits
           dest: POST_stream_status)

lemma quota_iff:
  assumes "parsed_body request = Some b"
      and "auth env = Inr (Some s)"
      and "session_user s = Some u"
      and "getMessageCountByUserId env (user_id u) 24 = Inr n"
  shows "status (fst (POST env g request)) = 429
         \<longleftrightarrow> n > maxMessagesPerDay (entitlementsByUserType (user_type u))"
proof (cases "n > maxMessagesPerDay (entitlementsByUserType (user_type u))")
  case True
  with assms show ?thesis by (simp add: POST_def POST_try_def Let_def)
next
  case False
  have "status (fst (POST env g request)) \<noteq> 429"
  proof (cases "fst (POST_try env g request b)")
    case (Inl e)
    with assms(1) have "status (fst (POST env g request)) = 500" by (rule POST_fst_500)
    then show ?thesis by simp
  next
    case (Inr r)
    with assms(1) have "fst (POST env g request) = r" by (rule POST_fst)
    moreover from assms(2,3,4) False Inr have "status r \<noteq> 429" by (rule POST_try_429)
    ultimately show ?thesis by simp
  qed
  with False show ?thesis by simp
qed

lemma admitted_saved:
  assumes "auth env = Inr (Some s)"
      and "session_user s = Some u"
      and "getMessageCountByUserId env (user_id u) 24 = Inr n"
      and "\<not> n > maxMessagesPerDay (entitlementsByUserType (user_type u))"
      and "(\<exists>c. getChatById env (body_id b) = Inr (Some c) \<and> userId c = user_id u)
         \<or> (getChatById env (body_id b) = Inr None
            \<and> (\<exists>t. generateTitleFromUserMessage env (body_message b) = Inr t
                 \<and> saveChat env (body_id b) (user_id u) t (selectedVisibilityType b) = Inr ()))"
      and "getMessagesByChatId env (body_id b) = Inr previous"
  shows "savedMessages (snd (POST_try env g request b)) = [userMessage env b]"
  using assms
  by (auto simp: POST_try_def Let_def POST_stream_saved)

text \<open>
  C9. For a request with a valid body of an authenticated user with reported count \<open>n\<close>:
  POST answers 429 exactly when \<open>n\<close> is strictly greater than the
  \<^verbatim>\<open>maxMessagesPerDay\<close> of the user's type. When \<open>n\<close> equals the limit, the request is
  admitted: if the chat is the user's own (or is new and can be created) and its history
  can be read, the handler hands exactly one row to \<^verbatim>\<open>saveMessages\<close>, the user's
  message with role \<^verbatim>\<open>user\<close>, so that with the \<open>n\<close> messages already counted the
  window holds \<^verbatim>\<open>maxMessagesPerDay + 1\<close>.
\<close>

theorem C9_quota_boundary:
  assumes "parsed_body request = Some b"
      and "auth env = Inr (Some s)"
      and "session_user s = Some u"
      and "getMessageCountByUserId env (user_id u) 24 = Inr n"
  shows "(status (fst (POST env g request)) = 429
            \<longleftrightarrow> n > maxMessagesPerDay (entitlementsByUserType (user_type u)))
       \<and> (n = maxMessagesPerDay (entitlementsByUserType (user_type u))
            \<longrightarrow> ((\<exists>c. getChatById env (body_id b) = Inr (Some c) \<and> userId c = user_id u)
                 \<or> (getChatById env (body_id b) = Inr None
                    \<and> (\<exists>t. generateTitleFromUserMessage env (body_message b) = Inr t
                         \<and> saveChat env (body_id b) (user_id u) t (selectedVisibilityType b)
                             = Inr ())))
            \<longrightarrow> (\<exists>previous. getMessagesByChatId env (body_id b) = Inr previous)
            \<longrightarrow> status (fst (POST env g request)) \<noteq> 429
                \<and> savedMessages (snd (POST env g request)) = [userMessage env b]
                \<and> role (userMessage env b) = ''user''
                \<and> n + int (length (savedMessages (snd (POST env g request))))
                    = maxMessagesPerDay (entitlementsByUserType (user_type u)) + 1)"
proof (intro conjI impI)
  show q: "status (fst (POST env g request)) = 429
            \<longleftrightarrow> n > maxMessagesPerDay (entitlementsByUserType (user_type u))"
    using assms by (rule quota_iff)
  assume n: "n = maxMessagesPerDay (entitlementsByUserType (user_type u))"
     and c: "(\<exists>c. getChatById env (body_id b) = Inr (Some c) \<and> userId c = user_id u)
                 \<or> (getChatById env (body_id b) = Inr None
                    \<and> (\<exists>t. generateTitleFromUserMessage env (body_message b) = Inr t
                         \<and> saveChat env (body_id b) (user_id u) t (selectedVisibilityType b)
                             = Inr ()))"
     and "\<exists>previous. getMessagesByChatId env (body_id b) = Inr previous"
  then obtain previous where p: "getMessagesByChatId env (body_id b) = Inr previous" by blast
  from n have le: "\<not> n > maxMessagesPerDay (entitlementsByUserType (user_type u))" by simp
  with q show "status (fst (POST env g request)) \<noteq> 429" by simp
  from assms(2,3,4) le c p
  have "savedMessages (snd (POST_try env g request b)) = [userMessage env b]"
    by (rule admitted_saved)
  with assms(1) show s: "savedMessages (snd (POST env g request)) = [userMessage env b]"
    by (simp add: POST_snd)
  show "role (userMessage env b) = ''user''" by (simp add: userMessage_def)
  from s n show "n + int (length (savedMessages (snd (POST env g request))))
                    = maxMessagesPerDay (entitlementsByUserType (user_type u)) + 1"
    by simp
qed

theorem C9_witness:
  "getMessageCountByUserId example_env (user_id alice) 24 = Inr 20
   \<and> maxMessagesPerDay (entitlementsByUserType (user_type alice)) = 20
   \<and> status (fst (POST example_env None (example_post ''xai-grok2''))) = 200
   \<and> savedMessages (snd (POST example_env None (example_post ''xai-grok2'')))
       = [userMessage example_env (example_body ''xai-grok2'')]
   \<and> getMessageCountByUserId over_quota_env (user_id alice) 24 = Inr 21
   \<and> status (fst (POST over_quota_env None (example_post ''xai-grok2''))) = 429"
proof -
  have b: "parsed_body (example_post ''xai-grok2'') = Some (example_body ''xai-grok2'')"
    by (simp add: example_post_def)
  have a: "auth example_env = Inr (Some \<lparr>session_user = Some alice\<rparr>)"
          "auth over_quota_env = Inr (Some \<lparr>session_user = Some alice\<rparr>)"
    by (simp_all add: over_quota_env_def example_env_def)
  have u: "session_user \<lparr>session_user = Some alice\<rparr> = Some alice" by simp
  have n: "getMessageCountByUserId example_env (user_id alice) 24 = Inr 20"
          "getMessageCountByUserId over_quota_env (user_id alice) 24 = Inr 21"
    by (simp_all add: over_quota_env_def example_env_def)
  have m: "maxMessagesPerDay (entitlementsByUserType (user_type alice)) = 20"
    by (simp add: alice_def)
  have c: "getChatById example_env (body_id (example_body ''xai-grok2'')) = Inr (Some alice_chat)"
          "userId alice_chat = user_id alice"
          "getMessagesByChatId example_env (body_id (example_body ''xai-grok2''))
             = Inr [assistant_reply]"
    by (simp_all add: ex_defs)
  have s: "status (fst (POST example_env None (example_post ''xai-grok2''))) = 200"
    by (simp add: example_post_grok2)
  from C9_quota_boundary [OF b a(1) u n(1), of None] m c
  have "savedMessages (snd (POST example_env None (example_post ''xai-grok2'')))
       = [userMessage example_env (example_body ''xai-grok2'')]"
    by simp
  moreover from C9_quota_boundary [OF b a(2) u n(2), of None] m
  have "status (fst (POST over_quota_env None (example_post ''xai-grok2''))) = 429"
    by simp
  ultimately show ?thesis using n m s by simp
qed

section \<open>GET and DELETE\<close>

subsection \<open>The grace window\<close>

lemma differenceInSeconds_gt_15:
  "differenceInSeconds a b > 15 \<longleftrightarrow> a - b \<ge> 16000"
  by (auto simp: differenceInSeconds_def Let_def)

lemma GET_reaches_restore:
  assumes "fst (getStreamContext env g) = Inr (Some ctx)"
      and "get_chatId request = Some cid" and "cid \<noteq> []"
      and "auth env = Inr (Some s)" and "session_user s = Some u"
      and "getChatById env cid = Inr (Some c)"
      and "visibility c = Public \<or> userId c = user_id u"
      and "getStreamIdsByChatId env cid = Inr ids" and "ids \<noteq> []" and "last ids \<noteq> []"
      and "resumableStream ctx (last ids) [] = Inr None"
  shows "GET env g request = GET_restore env (now env) cid"
  using assms by (auto simp: GET_def Let_def)

lemma GET_restore_status:
  "GET_restore env t cid = Inr r \<Longrightarrow> status r = 200"
  by (auto simp: GET_restore_def Let_def split: sum.splits if_splits)

text \<open>
  C3, as stated, fails between 15 and 16 seconds: the handler compares the whole number
  of elapsed seconds with 15. In the concrete deployment the stream of the chat has left
  the store and the last message, an assistant reply, was created 15.5 seconds before the
  request; the response carries the synthesized event, not an empty stream.
\<close>

theorem C3_counterexample:
  "fst (getStreamContext example_env None) = Inr (Some example_context)
   \<and> getStreamIdsByChatId example_env ''chat-1'' = Inr [''stream-1'']
   \<and> resumableStream example_context ''stream-1'' [] = Inr None
   \<and> getMessagesByChatId example_env ''chat-1'' = Inr [assistant_reply]
   \<and> role assistant_reply = ''assistant''
   \<and> now example_env - createdAt assistant_reply = 15500
   \<and> GET example_env None chat1_request
       = Inr \<lparr>status = 200, body = Stream [WriteData ''append-message'' assistant_reply]\<rparr>
   \<and> GET example_env None chat1_request \<noteq> Inr \<lparr>status = 200, body = Stream []\<rparr>"
  by (simp add: get_defs ex_defs chat1_request_def)

text \<open>
  C3, amended. For every GET request of an authenticated user on a chat they may read,
  whose most recent stream id the store answers with null, and whose most recent
  persisted message has role \<^verbatim>\<open>assistant\<close>: if the message was created less than 16
  seconds before the request (at most 15 whole seconds elapsed), the response is a 200
  stream with exactly one \<^verbatim>\<open>append-message\<close> event carrying that message; if it was
  created 16 seconds or more before, the response is an empty 200 stream. Times are in
  milliseconds.
\<close>

theorem C3_grace_window:
  assumes "fst (getStreamContext env g) = Inr (Some ctx)"
      and "get_chatId request = Some cid" and "cid \<noteq> []"
      and "auth env = Inr (Some s)" and "session_user s = Some u"
      and "getChatById env cid = Inr (Some c)"
      and "visibility c = Public \<or> userId c = user_id u"
      and "getStreamIdsByChatId env cid = Inr ids" and "ids \<noteq> []" and "last ids \<noteq> []"
      and "resumableStream ctx (last ids) [] = Inr None"
      and "getMessagesByChatId env cid = Inr ms" and "ms \<noteq> []"
      and "role (last ms) = ''assistant''"
  shows "(now env - createdAt (last ms) < 16000 \<longrightarrow>
            GET env g request =
              Inr \<lparr>status = 200, body = Stream [WriteData ''append-message'' (last ms)]\<rparr>)
       \<and> (now env - createdAt (last ms) \<ge> 16000 \<longrightarrow>
            GET env g request = Inr \<lparr>status = 200, body = Stream []\<rparr>)"
proof -
  have "GET env g request = GET_restore env (now env) cid"
    using assms(1-11) by (rule GET_reaches_restore)
  with assms(12-14) show ?thesis
    by (auto simp: GET_restore_def Let_def differenceInSeconds_gt_15)
qed

theorem C3_witness:
  "now example_env - createdAt assistant_reply = 15500
   \<and> GET example_env None chat1_request
       = Inr \<lparr>status = 200, body = Stream [WriteData ''append-message'' assistant_reply]\<rparr>
   \<and> now late_env - createdAt assistant_reply = 16000
   \<and> GET late_env None chat1_request = Inr \<lparr>status = 200, body = Stream []\<rparr>"
proof -
  have e: "fst (getStreamContext example_env None) = Inr (Some example_context)"
          "get_chatId chat1_request = Some ''chat-1''" "''chat-1'' \<noteq> []"
          "auth example_env = Inr (Some \<lparr>session_user = Some alice\<rparr>)"
          "session_user \<lparr>session_user = Some alice\<rparr> = Some alice"
          "getChatById example_env ''chat-1'' = Inr (Some alice_chat)"
          "visibility alice_chat = Public \<or> userId alice_chat = user_id alice"
          "getStreamIdsByChatId example_env ''chat-1'' = Inr [''stream-1'']"
          "[''stream-1''] \<noteq> []" "last [''stream-1''] \<noteq> []"
          "resumableStream example_context (last [''stream-1'']) [] = Inr None"
          "getMessagesByChatId example_env ''chat-1'' = Inr [assistant_reply]"
          "[assistant_reply] \<noteq> []" "role (last [assistant_reply]) = ''assistant''"
    by (simp_all add: ex_defs chat1_request_def getStreamContext_def)
  have l: "fst (getStreamContext late_env None) = Inr (Some example_context)"
          "get_chatId chat1_request = Some ''chat-1''" "''chat-1'' \<noteq> []"
          "auth late_env = Inr (Some \<lparr>session_user = Some alice\<rparr>)"
          "session_user \<lparr>session_user = Some alice\<rparr> = Some alice"
          "getChatById late_env ''chat-1'' = Inr (Some alice_chat)"
          "visibility alice_chat = Public \<or> userId alice_chat = user_id alice"
          "getStreamIdsByChatId late_env ''chat-1'' = Inr [''stream-1'']"
          "[''stream-1''] \<noteq> []" "last [''stream-1''] \<noteq> []"
          "resumableStream example_context (last [''stream-1'']) [] = Inr None"
          "getMessagesByChatId late_env ''chat-1'' = Inr [assistant_reply]"
          "[assistant_reply] \<noteq> []" "role (last [assistant_reply]) = ''assistant''"
    by (simp_all add: ex_defs late_env_def chat1_request_def getStreamContext_def)
  have t1: "now example_env - createdAt assistant_reply = 15500"
   and t2: "now late_env - createdAt assistant_reply = 16000"
    by (simp_all add: ex_defs late_env_def)
  from C3_grace_window [OF e] C3_grace_window [OF l] t1 t2 show ?thesis by simp
qed

subsection \<open>Ownership\<close>

lemma GET_403_only_private:
  assumes "GET env g request = Inr r" and "status r = 403"
  shows "\<exists>cid c s u. get_chatId request = Some cid \<and> getChatById env cid = Inr (Some c)
            \<and> auth env = Inr (Some s) \<and> session_user s = Some u
            \<and> visibility c = Private \<and> userId c \<noteq> user_id u"
  using assms
  by (auto simp: GET_def Let_def split: sum.splits option.splits if_splits
           dest: GET_restore_status)

text \<open>
  C5, as stated, fails where resumable streaming is disabled: without a Redis URL the GET
  handler answers 204 before it looks at the chat, also for a private chat read by a user
  who does not own it.
\<close>

theorem C5_counterexample:
  "visibility alice_chat = Private
   \<and> userId alice_chat \<noteq> user_id bob
   \<and> getChatById no_redis_env ''chat-1'' = Inr (Some alice_chat)
   \<and> GET (no_redis_env\<lparr>auth := bob_session\<rparr>) None chat1_request
       = Inr \<lparr>status = 204, body = NoBody\<rparr>"
  by (simp add: get_defs ex_defs no_redis_env_def bob_session_def chat1_request_def)

text \<open>
  C5, amended. For every existing chat and every authenticated user: if the chat is
  private and the user is not its owner, GET answers 403 whenever a stream context is
  available, and DELETE answers 403; if the chat is public, GET answers 403 to no one.
\<close>

theorem C5_ownership:
  assumes "auth env = Inr (Some s)" and "session_user s = Some u" and "user_id u \<noteq> []"
      and "cid \<noteq> []" and "getChatById env cid = Inr (Some c)"
  shows "(visibility c = Private \<and> userId c \<noteq> user_id u
            \<and> fst (getStreamContext env g) = Inr (Some ctx)
          \<longrightarrow> GET env g \<lparr>get_chatId = Some cid\<rparr>
              = Inr \<lparr>status = 403, body = Text ''Forbidden''\<rparr>)
       \<and> (visibility c = Private \<and> userId c \<noteq> user_id u
          \<longrightarrow> DELETE env \<lparr>delete_id = Some cid\<rparr>
              = Inr \<lparr>status = 403, body = Text ''Forbidden''\<rparr>)
       \<and> (visibility c = Public
          \<longrightarrow> (\<forall>r. GET env g \<lparr>get_chatId = Some cid\<rparr> = Inr r \<longrightarrow> status r \<noteq> 403))"
proof (intro conjI impI allI)
  assume "visibility c = Private \<and> userId c \<noteq> user_id u
            \<and> fst (getStreamContext env g) = Inr (Some ctx)"
  with assms
  show "GET env g \<lparr>get_chatId = Some cid\<rparr> = Inr \<lparr>status = 403, body = Text ''Forbidden''\<rparr>"
    by (simp add: GET_def Let_def)
next
  assume "visibility c = Private \<and> userId c \<noteq> user_id u"
  with assms
  show "DELETE env \<lparr>delete_id = Some cid\<rparr> = Inr \<lparr>status = 403, body = Text ''Forbidden''\<rparr>"
    by (simp add: DELETE_def DELETE_try_def)
next
  fix r
  assume pub: "visibility c = Public" and r: "GET env g \<lparr>get_chatId = Some cid\<rparr> = Inr r"
  show "status r \<noteq> 403"
  proof
    assume "status r = 403"
    from GET_403_only_private [OF r this] assms(5) pub show False by auto
  qed
qed

theorem C5_witness:
  "GET (example_env\<lparr>auth := bob_session\<rparr>) None \<lparr>get_chatId = Some ''chat-1''\<rparr>
       = Inr \<lparr>status = 403, body = Text ''Forbidden''\<rparr>
   \<and> DELETE (example_env\<lparr>auth := bob_session\<rparr>) \<lparr>delete_id = Some ''chat-1''\<rparr>
       = Inr \<lparr>status = 403, body = Text ''Forbidden''\<rparr>
   \<and> GET public_env None \<lparr>get_chatId = Some ''chat-1''\<rparr>
       = Inr \<lparr>status = 200, body = Stream [WriteData ''append-message'' assistant_reply]\<rparr>"
proof -
  let ?e = "example_env\<lparr>auth := bob_session\<rparr>"
  have a: "auth ?e = Inr (Some \<lparr>session_user = Some bob\<rparr>)"
          "session_user \<lparr>session_user = Some bob\<rparr> = Some bob" "user_id bob \<noteq> []"
          "''chat-1'' \<noteq> []" "getChatById ?e ''chat-1'' = Inr (Some alice_chat)"
    by (simp_all add: ex_defs bob_session_def)
  have b: "visibility alice_chat = Private \<and> userId alice_chat \<noteq> user_id bob
            \<and> fst (getStreamContext ?e None) = Inr (Some example_context)"
    by (simp add: ex_defs bob_session_def getStreamContext_def)
  have c: "auth public_env = Inr (Some \<lparr>session_user = Some bob\<rparr>)"
          "session_user \<lparr>session_user = Some bob\<rparr> = Some bob" "user_id bob \<noteq> []"
          "''chat-1'' \<noteq> []"
          "getChatById public_env ''chat-1'' = Inr (Some (alice_chat\<lparr>visibility := Public\<rparr>))"
    by (simp_all add: ex_defs public_env_def bob_session_def)
  have g: "GET public_env None \<lparr>get_chatId = Some ''chat-1''\<rparr>
       = Inr \<lparr>status = 200, body = Stream [WriteData ''append-message'' assistant_reply]\<rparr>"
    by (simp add: get_defs ex_defs public_env_def bob_session_def)
  have "status \<lparr>status = 200, body = Stream [WriteData ''append-message'' assistant_reply]\<rparr>
          \<noteq> 403"
    using C5_ownership [OF c, of None example_context] g by (simp add: alice_chat_def)
  with C5_ownership [OF a, of None example_context] b g show ?thesis by simp
qed

subsection \<open>The order of the checks of GET\<close>

text \<open>
  C8, as stated, fails where resumable streaming is disabled: the 204 answer comes first,
  before the \<^verbatim>\<open>chatId\<close> and the session are looked at. Without a Redis URL, a request
  without \<^verbatim>\<open>chatId\<close> gets 204, not 400, and an unauthenticated request gets 204, not
  401.
\<close>

theorem C8_counterexample:
  "GET no_redis_env None \<lparr>get_chatId = None\<rparr> = Inr \<lparr>status = 204, body = NoBody\<rparr>
   \<and> GET (no_redis_env\<lparr>auth := Inr None\<rparr>) None chat1_request
       = Inr \<lparr>status = 204, body = NoBody\<rparr>"
  by (simp add: get_defs ex_defs no_redis_env_def chat1_request_def)

text \<open>
  C8, amended. When no stream context is available, every GET request gets 204. When one
  is available, a request without \<^verbatim>\<open>chatId\<close> (absent or empty) gets 400, and a request
  with a \<^verbatim>\<open>chatId\<close> and without an authenticated user gets 401.
\<close>

theorem C8_check_order:
  "(fst (getStreamContext env g) = Inr None
      \<longrightarrow> GET env g request = Inr \<lparr>status = 204, body = NoBody\<rparr>)
   \<and> (fst (getStreamContext env g) = Inr (Some ctx)
      \<longrightarrow> (get_chatId request = None \<or> get_chatId request = Some []
            \<longrightarrow> GET env g request = Inr \<lparr>status = 400, body = Text ''id is required''\<rparr>)
        \<and> ((\<exists>cid. get_chatId request = Some cid \<and> cid \<noteq> [])
             \<and> (auth env = Inr None \<or> (\<exists>s. auth env = Inr (Some s) \<and> session_user s = None))
            \<longrightarrow> GET env g request = Inr \<lparr>status = 401, body = Text ''Unauthorized''\<rparr>))"
  by (auto simp: GET_def Let_def)

theorem C8_witness:
  "fst (getStreamContext example_env None) = Inr (Some example_context)
   \<and> GET example_env None \<lparr>get_chatId = None\<rparr>
       = Inr \<lparr>status = 400, body = Text ''id is required''\<rparr>
   \<and> GET (example_env\<lparr>auth := Inr None\<rparr>) None \<lparr>get_chatId = Some ''chat-1''\<rparr>
       = Inr \<lparr>status = 401, body = Text ''Unauthorized''\<rparr>
   \<and> fst (getStreamContext no_redis_env None) = Inr None
   \<and> GET no_redis_env None \<lparr>get_chatId = None\<rparr> = Inr \<lparr>status = 204, body = NoBody\<rparr>"
proof -
  have 1: "fst (getStreamContext example_env None) = Inr (Some example_context)"
   and 2: "fst (getStreamContext (example_env\<lparr>auth := Inr None\<rparr>) None)
             = Inr (Some example_context)"
   and 3: "fst (getStreamContext no_redis_env None) = Inr None"
    by (simp_all add: ex_defs no_redis_env_def getStreamContext_def)
  have 4: "auth (example_env\<lparr>auth := Inr None\<rparr>) = Inr None" by simp
  from C8_check_order [where env = example_env and g = None and ctx = example_context
                          and request = "\<lparr>get_chatId = None\<rparr>"]
       C8_check_order [where env = "example_env\<lparr>auth := Inr None\<rparr>" and g = None
                          and ctx = example_context
                          and request = "\<lparr>get_chatId = Some ''chat-1''\<rparr>"]
       C8_check_order [where env = no_redis_env and g = None and ctx = example_context
                          and request = "\<lparr>get_chatId = None\<rparr>"]
       1 2 3 4
  show ?thesis by simp
qed

subsection \<open>DELETE of a chat that does not exist\<close>

text \<open>
  C10. For every DELETE request of an authenticated user whose \<^verbatim>\<open>id\<close> names no chat
  (\<^verbatim>\<open>getChatById\<close> gives undefined), the handler answers 500 with the generic message:
  reading \<^verbatim>\<open>chat.userId\<close> throws inside the \<^verbatim>\<open>try\<close> block and the \<^verbatim>\<open>catch\<close>
  answers.
\<close>

theorem C10_delete_missing_chat:
  assumes "delete_id request = Some cid" and "cid \<noteq> []"
      and "auth env = Inr (Some s)" and "session_user s = Some u" and "user_id u \<noteq> []"
      and "getChatById env cid = Inr None"
  shows "DELETE env request =
           Inr \<lparr>status = 500, body = Text ''An error occurred while processing your request!''\<rparr>"
  using assms by (simp add: DELETE_def DELETE_try_def)

theorem C10_witness:
  "getChatById example_env ''chat-9'' = Inr None
   \<and> DELETE example_env \<lparr>delete_id = Some ''chat-9''\<rparr> =
       Inr \<lparr>status = 500, body = Text ''An error occurred while processing your request!''\<rparr>"
proof -
  have h: "delete_id \<lparr>delete_id = Some ''chat-9''\<rparr> = Some ''chat-9''" "''chat-9'' \<noteq> []"
          "auth example_env = Inr (Some \<lparr>session_user = Some alice\<rparr>)"
          "session_user \<lparr>session_user = Some alice\<rparr> = Some alice" "user_id alice \<noteq> []"
          "getChatById example_env ''chat-9'' = Inr None"
    by (simp_all add: ex_defs)
  from C10_delete_missing_chat [OF h] h(6) show ?thesis by simp
qed

end
